theory Spec2Isabelle
  imports Main "HOL-Library.Word"
begin

unbundle bit_operations_syntax

section \<open>Python values\<close>

text \<open>
  The three handlers of \<^verbatim>\<open>zpark/v1.py\<close> work on header values, on the raw body and on
  the decoded JSON body. A Python \<^verbatim>\<open>str\<close> is a \<^typ>\<open>string\<close> here: the code points
  0..255, which is what a WSGI server hands over for a header value (headers are decoded as
  Latin-1). A \<^verbatim>\<open>bytes\<close> object is a list of 8-bit words. Python integers are unbounded:
  \<^typ>\<open>int\<close>. A float is carried by the text \<^verbatim>\<open>repr\<close> gives for it; no floating point
  arithmetic happens in the handlers.
\<close>

type_synonym byte = "8 word"

datatype json =
    JNull
  | JBool bool
  | JInt int
  | JFloat string
  | JStr string
  | JList "json list"
  | JDict "(string \<times> json) list"

text \<open>
  The exceptions that can leave a handler. \<open>BadRequest\<close> is what
  \<^verbatim>\<open>request.get_json()\<close> raises on a body it cannot decode; \<open>Abort code name\<close> is
  \<^verbatim>\<open>flask_restful.abort(code, message={name: ...})\<close>, raised by the request parser for
  the argument \<open>name\<close>.
\<close>

datatype exn = TypeError | ValueError | AttributeError | BadRequest | Abort int string

text \<open>What a handler returns: the body and the HTTP status code.\<close>

type_synonym response = "json \<times> int"

subsection \<open>\<^verbatim>\<open>int(s)\<close>\<close>

text \<open>
  \<^verbatim>\<open>int\<close> of a \<^verbatim>\<open>str\<close>, base 10: white space around the literal is skipped, one sign
  is allowed, then digits, where single underscores may stand between two digits. The white
  space of the code points 0..255 that \<^verbatim>\<open>int\<close> skips is TAB, LF, VT, FF, CR, SPACE, NEL
  (0x85) and NBSP (0xA0). Anything else raises \<^verbatim>\<open>ValueError\<close>; \<^verbatim>\<open>int(None)\<close> raises
  \<^verbatim>\<open>TypeError\<close>.
\<close>

definition is_space :: "char \<Rightarrow> bool" where
  "is_space c = (of_char c \<in> {9, 10, 11, 12, 13, 32, 133, 160 :: nat})"

definition is_digit :: "char \<Rightarrow> bool" where
  "is_digit c = (48 \<le> (of_char c :: nat) \<and> (of_char c :: nat) \<le> 57)"

definition digit_val :: "char \<Rightarrow> int" where
  "digit_val c = int (of_char c) - 48"

fun int_digits :: "int \<Rightarrow> bool \<Rightarrow> string \<Rightarrow> int option" where
  "int_digits acc prev_underscore [] = (if prev_underscore then None else Some acc)"
| "int_digits acc prev_underscore (c # cs) =
     (if is_digit c then int_digits (10 * acc + digit_val c) False cs
      else if c = CHR ''_'' \<and> \<not> prev_underscore then int_digits acc True cs
      else None)"

definition int_literal :: "string \<Rightarrow> int option" where
  "int_literal s =
     (case s of
        [] \<Rightarrow> None
      | c # cs \<Rightarrow> if is_digit c then int_digits (digit_val c) False cs else None)"

definition strip :: "string \<Rightarrow> string" where
  "strip s = rev (dropWhile is_space (rev (dropWhile is_space s)))"

definition int_of_str :: "string \<Rightarrow> int option" where
  "int_of_str s =
     (case strip s of
        [] \<Rightarrow> None
      | c # cs \<Rightarrow>
          if c = CHR ''-'' then map_option uminus (int_literal cs)
          else if c = CHR ''+'' then int_literal cs
          else int_literal (c # cs))"

definition py_int :: "string option \<Rightarrow> exn + int" where
  "py_int v =
     (case v of
        None \<Rightarrow> Inl TypeError
      | Some s \<Rightarrow> (case int_of_str s of None \<Rightarrow> Inl ValueError | Some n \<Rightarrow> Inr n))"

subsection \<open>\<^verbatim>\<open>str(v)\<close> and \<^verbatim>\<open>'{}'.format(v)\<close>\<close>

definition hex_digit :: "nat \<Rightarrow> char" where
  "hex_digit n = ''0123456789abcdef'' ! n"

fun decimal :: "nat \<Rightarrow> string" where
  "decimal n = (if n < 10 then [hex_digit n] else decimal (n div 10) @ [hex_digit (n mod 10)])"

declare decimal.simps [simp del]

definition str_int :: "int \<Rightarrow> string" where
  "str_int i = (if i < 0 then CHR ''-'' # decimal (nat (- i)) else decimal (nat i))"

text \<open>
  \<^verbatim>\<open>repr\<close> of a \<^verbatim>\<open>str\<close>: single quotes, unless the text has a single quote and no
  double quote; the quote and the backslash are escaped, TAB, LF and CR get their letter,
  and a code point that is not printable (below 0x20, 0x7F to 0xA0, 0xAD) is written
  \<^verbatim>\<open>\xNN\<close>.
\<close>

definition repr_char :: "char \<Rightarrow> char \<Rightarrow> string" where
  "repr_char q c =
     (let n = (of_char c :: nat) in
      if c = q \<or> n = 92 then [CHR 0x5C, c]
      else if n = 9 then [CHR 0x5C, CHR ''t'']
      else if n = 10 then [CHR 0x5C, CHR ''n'']
      else if n = 13 then [CHR 0x5C, CHR ''r'']
      else if n < 32 \<or> (127 \<le> n \<and> n \<le> 160) \<or> n = 173
        then [CHR 0x5C, CHR ''x'', hex_digit (n div 16), hex_digit (n mod 16)]
      else [c])"

definition repr_str :: "string \<Rightarrow> string" where
  "repr_str s =
     (let q = (if CHR 0x27 \<in> set s \<and> CHR 0x22 \<notin> set s then CHR 0x22 else CHR 0x27)
      in q # concat (map (repr_char q) s) @ [q])"

fun join :: "string \<Rightarrow> string list \<Rightarrow> string" where
  "join sep [] = []"
| "join sep [x] = x"
| "join sep (x # y # ys) = x @ sep @ join sep (y # ys)"

primrec repr :: "json \<Rightarrow> string" where
  "repr JNull = ''None''"
| "repr (JBool b) = (if b then ''True'' else ''False'')"
| "repr (JInt i) = str_int i"
| "repr (JFloat r) = r"
| "repr (JStr s) = repr_str s"
| "repr (JList xs) = ''['' @ join '', '' (map repr xs) @ '']''"
| "repr (JDict kvs) =
     ''{'' @ join '', '' (map (\<lambda>(k, v). repr_str k @ '': '' @ v) (map (map_prod id repr) kvs)) @ ''}''"

definition str :: "json \<Rightarrow> string" where
  "str v = (case v of JStr s \<Rightarrow> s | _ \<Rightarrow> repr v)"

subsection \<open>\<^verbatim>\<open>hashlib.sha1\<close>, \<^verbatim>\<open>hmac.new(...).hexdigest()\<close>, \<^verbatim>\<open>hmac.compare_digest\<close>\<close>

text \<open>
  SHA-1 (FIPS 180) on byte lists: the message is padded with 0x80, zeros and its length in
  bits as a 64-bit big-endian number, cut into blocks of 64 bytes, and each block drives 80
  rounds over five 32-bit words.
\<close>

type_synonym u32 = "32 word"

definition rotl :: "nat \<Rightarrow> u32 \<Rightarrow> u32" where
  "rotl n w = push_bit n w OR drop_bit (32 - n) w"

definition be32 :: "byte list \<Rightarrow> u32" where
  "be32 bs = foldl (\<lambda>acc b. push_bit 8 acc OR ucast b) 0 bs"

definition be_bytes :: "nat \<Rightarrow> 'a::len word \<Rightarrow> byte list" where
  "be_bytes k w = map (\<lambda>i. ucast (drop_bit (8 * i) w)) (rev [0..<k])"

fun chunks :: "nat \<Rightarrow> 'a list \<Rightarrow> 'a list list" where
  "chunks n [] = []"
| "chunks n (x # xs) =
     (if n = 0 then [] else take n (x # xs) # chunks n (drop n (x # xs)))"

definition sha1_pad :: "byte list \<Rightarrow> byte list" where
  "sha1_pad m =
     m @ [0x80] @ replicate ((119 - length m mod 64) mod 64) 0
       @ be_bytes 8 (word_of_nat (8 * length m) :: 64 word)"

fun sha1_schedule :: "nat \<Rightarrow> u32 list \<Rightarrow> u32 list" where
  "sha1_schedule 0 w = w"
| "sha1_schedule (Suc k) w =
     (let i = length w
      in sha1_schedule k
           (w @ [rotl 1 (w ! (i - 3) XOR w ! (i - 8) XOR w ! (i - 14) XOR w ! (i - 16))]))"

type_synonym sha1_state = "u32 \<times> u32 \<times> u32 \<times> u32 \<times> u32"

definition sha1_round :: "sha1_state \<Rightarrow> nat \<times> u32 \<Rightarrow> sha1_state" where
  "sha1_round s iw =
     (case s of (a, b, c, d, e) \<Rightarrow> case iw of (i, w) \<Rightarrow>
        let (f, k) =
              (if i < 20 then ((b AND c) OR (NOT b AND d), 0x5A827999)
               else if i < 40 then (b XOR c XOR d, 0x6ED9EBA1)
               else if i < 60 then ((b AND c) OR (b AND d) OR (c AND d), 0x8F1BBCDC)
               else (b XOR c XOR d, 0xCA62C1D6));
            temp = rotl 5 a + f + e + k + w
        in (temp, a, rotl 30 b, c, d))"

definition sha1_block :: "sha1_state \<Rightarrow> byte list \<Rightarrow> sha1_state" where
  "sha1_block h blk =
     (let w = sha1_schedule 64 (map be32 (chunks 4 blk))
      in case h of (h0, h1, h2, h3, h4) \<Rightarrow>
         case foldl sha1_round h (zip [0..<80] w) of (a, b, c, d, e) \<Rightarrow>
           (h0 + a, h1 + b, h2 + c, h3 + d, h4 + e))"

definition sha1 :: "byte list \<Rightarrow> byte list" where
  "sha1 m =
     (case foldl sha1_block (0x67452301, 0xEFCDAB89, 0x98BADCFE, 0x10325476, 0xC3D2E1F0)
             (chunks 64 (sha1_pad m))
      of (h0, h1, h2, h3, h4) \<Rightarrow> concat (map (be_bytes 4) [h0, h1, h2, h3, h4]))"

text \<open>
  \<^verbatim>\<open>hmac.new(key, msg=msg, digestmod=hashlib.sha1)\<close>: a key longer than the block size
  of 64 bytes is hashed first, the key is padded with zeros to 64 bytes, and the digest is
  \<open>sha1 (key XOR opad @ sha1 (key XOR ipad @ msg))\<close>.
\<close>

definition hmac_sha1 :: "byte list \<Rightarrow> byte list \<Rightarrow> byte list" where
  "hmac_sha1 key msg =
     (let k = (if length key > 64 then sha1 key else key);
          k = k @ replicate (64 - length k) 0
      in sha1 (map (\<lambda>b. b XOR 0x5C) k @ sha1 (map (\<lambda>b. b XOR 0x36) k @ msg)))"

text \<open>\<^verbatim>\<open>hexdigest()\<close>: two lowercase hexadecimal digits for each byte.\<close>

definition hexdigest :: "byte list \<Rightarrow> string" where
  "hexdigest bs =
     concat (map (\<lambda>b. [hex_digit (unat b div 16), hex_digit (unat b mod 16)]) bs)"

text \<open>
  \<^verbatim>\<open>bytes(s, 'utf-8')\<close> on the code points 0..255: one byte below 0x80, two bytes from
  there on.
\<close>

definition utf8 :: "string \<Rightarrow> byte list" where
  "utf8 s =
     concat (map (\<lambda>c. let n = (of_char c :: nat)
                        in if n < 128 then [of_nat n]
                           else [of_nat (192 + n div 64), of_nat (128 + n mod 64)]) s)"

text \<open>
  \<^verbatim>\<open>hmac.compare_digest(a, b)\<close> on two \<^verbatim>\<open>str\<close>: both must be ASCII, otherwise it
  raises \<^verbatim>\<open>TypeError\<close>; on ASCII strings it is equality (computed in constant time, which
  the model does not see).
\<close>

definition is_ascii :: "string \<Rightarrow> bool" where
  "is_ascii s = list_all (\<lambda>c. (of_char c :: nat) < 128) s"

definition compare_digest :: "string \<Rightarrow> string \<Rightarrow> exn + bool" where
  "compare_digest a b = (if is_ascii a \<and> is_ascii b then Inr (a = b) else Inl TypeError)"

section \<open>The application: configuration, requests, collaborators\<close>

text \<open>
  \<^verbatim>\<open>app.config\<close>, as far as the handlers read it. The settings themselves are not in
  \<^verbatim>\<open>v1.py\<close>; their types are those of section 6 of the specification:
  \<open>MAX_CONTENT_LENGTH\<close> is a byte count, a natural number, and the secret is a string.
  \<open>SPARK_WEBHOOK_SECRET\<close> is \<open>None\<close> when the key is not in \<^verbatim>\<open>app.config\<close>.
\<close>

record config =
  MAX_CONTENT_LENGTH :: nat
  SPARK_WEBHOOK_SECRET :: "string option"

text \<open>
  The Flask request, as far as the handlers read it: \<open>headers r name\<close> is
  \<^verbatim>\<open>request.headers.get(name, None)\<close>, \<open>get_data\<close> the raw body, and \<open>get_json\<close> what
  \<^verbatim>\<open>request.get_json()\<close> does on this request: it raises, or it returns the decoded body
  (\<open>JNull\<close> is Python's \<^verbatim>\<open>None\<close>).
\<close>

record request =
  headers :: "string \<rightharpoonup> string"
  get_data :: "byte list"
  get_json :: "exn + json"

text \<open>
  The collaborators of the module \<^verbatim>\<open>zpark.api_common\<close> that the handlers delegate to.
  They are not part of this file of the repository; the handlers are parametric in them.
\<close>

record api_common =
  send_spark_alert_message :: "string option \<Rightarrow> string option \<Rightarrow> string option \<Rightarrow> response"
  handle_spark_webhook :: "json \<Rightarrow> response"
  ping :: "int \<Rightarrow> response"

text \<open>
  What a handler does besides returning, in order: reading the body, computing the HMAC,
  writing to the log, calling a collaborator.
\<close>

datatype event =
    Get_json
  | Get_data
  | Hmac_new
  | Log_warning string
  | Log_debug string
  | Log_info string
  | Handle_spark_webhook json
  | Send_spark_alert_message "string option" "string option" "string option"
  | Ping int

type_synonym outcome = "event list \<times> (exn + response)"

section \<open>\<^verbatim>\<open>Webhook.post\<close>\<close>

text \<open>
  \<^verbatim>\<open>reqjson.get(key, default)\<close>: only a \<^verbatim>\<open>dict\<close> has the method; on any other value
  the attribute lookup raises \<^verbatim>\<open>AttributeError\<close>.
\<close>

definition dict_get :: "json \<Rightarrow> string \<Rightarrow> json \<Rightarrow> exn + json" where
  "dict_get v key dflt =
     (case v of
        JDict kvs \<Rightarrow> Inr (case map_of kvs key of None \<Rightarrow> dflt | Some x \<Rightarrow> x)
      | _ \<Rightarrow> Inl AttributeError)"

definition id_name :: "json \<Rightarrow> json \<Rightarrow> string" where
  "id_name whid whname = '' id:'' @ str whid @ '' name:'' @ [CHR 0x22] @ str whname @ [CHR 0x22]"

definition bad_request :: response where
  "bad_request = (JDict [(''error'', JStr ''Bad request'')], 400)"

definition too_big :: response where
  "too_big = (JDict [(''error'', JStr ''Too big'')], 413)"

definition unauthorized :: response where
  "unauthorized = (JDict [(''error'', JStr ''Unauthorized'')], 403)"


text \<open>
  Lines 135 to 164, the signature check: the events of the check and, when the check ends
  the request, what the handler returns or raises; \<open>None\<close> when control falls through to
  the dispatch.
\<close>

definition Webhook_post_signature ::
  "config \<Rightarrow> request \<Rightarrow> string option \<Rightarrow> json \<Rightarrow> json \<Rightarrow> event list \<times> (exn + response) option"
where
  "Webhook_post_signature cfg req sparkhmac whid whname =
     (case SPARK_WEBHOOK_SECRET cfg of
        None \<Rightarrow> ([], None)
      | Some secret \<Rightarrow>
          (case sparkhmac of
             None \<Rightarrow>
               ([Log_warning (''webhook: Unauthorized webhook callback received:''
                    @ '' no X-Spark-Signature header.''
                    @ '' Verify the callback has a configured secret.''
                    @ id_name whid whname)],
                Some (Inr unauthorized))
           | Some signature \<Rightarrow>
               let ourhmac = hexdigest (hmac_sha1 (utf8 secret) (get_data req)) in
               (case compare_digest ourhmac signature of
                  Inl e \<Rightarrow> ([Get_data, Hmac_new], Some (Inl e))
                | Inr equal \<Rightarrow>
                    if equal then ([Get_data, Hmac_new], None)
                    else
                      ([Get_data, Hmac_new,
                        Log_warning (''webhook: Unauthorized webhook callback received:''
                          @ '' HMACs do not match.''
                          @ '' Verify proper setting of '' @ [CHR 0x27] @ ''SPARK_WEBHOOK_SECRET''
                          @ [CHR 0x27] @ ''.'' @ id_name whid whname),
                        Log_debug (''webhook: Spark'' @ [CHR 0x27] @ ''s HMAC: '' @ signature
                          @ '' / Our computed HMAC: '' @ ourhmac)],
                       Some (Inr unauthorized)))))"

definition Webhook_post :: "config \<Rightarrow> api_common \<Rightarrow> request \<Rightarrow> outcome" where
  "Webhook_post cfg api req =
     (case py_int (headers req ''Content-Length'') of
        Inl e \<Rightarrow> ([], if e = ValueError then Inr bad_request else Inl e)
      | Inr cl \<Rightarrow>
          if cl \<noteq> 0 \<and> cl > int (MAX_CONTENT_LENGTH cfg) then ([], Inr too_big)
          else
            let sparkhmac = headers req ''X-Spark-Signature'' in
            (case get_json req of
               Inl e \<Rightarrow> ([Get_json], Inl e)
             | Inr reqjson \<Rightarrow>
                 (case dict_get reqjson ''id'' (JStr ''<Unknown>'') of
                    Inl e \<Rightarrow> ([Get_json], Inl e)
                  | Inr whid \<Rightarrow>
                      (case dict_get reqjson ''name'' (JStr ''<Unknown>'') of
                         Inl e \<Rightarrow> ([Get_json], Inl e)
                       | Inr whname \<Rightarrow>
                           (case Webhook_post_signature cfg req sparkhmac whid whname of
                              (evs, Some early) \<Rightarrow> (Get_json # evs, early)
                            | (evs, None) \<Rightarrow>
                                (Get_json # evs
                                   @ [Log_info (''webhook callback received:''
                                        @ id_name whid whname),
                                      Handle_spark_webhook reqjson],
                                 Inr (handle_spark_webhook api reqjson)))))))"

section \<open>\<^verbatim>\<open>Alert.post\<close> and \<^verbatim>\<open>Ping.get\<close>\<close>

text \<open>
  \<^verbatim>\<open>reqparse.RequestParser\<close> belongs to flask_restful. An argument declared with
  \<^verbatim>\<open>type=str, location='json'\<close> is parsed as follows. The source is
  \<^verbatim>\<open>request.get_json()\<close>, an empty dictionary when that is \<^verbatim>\<open>None\<close>. When
  \<^verbatim>\<open>name in source\<close> is false the argument is missing: the parser aborts with status 400
  if it is required and yields the default \<^verbatim>\<open>None\<close> otherwise. When the name is there,
  the value is read with \<^verbatim>\<open>source.get(name)\<close>; \<^verbatim>\<open>None\<close> stays \<^verbatim>\<open>None\<close>, and any
  other value \<open>v\<close> is converted by calling the type: \<^verbatim>\<open>str(v)\<close>, which never fails.
\<close>

fun contains :: "string \<Rightarrow> string \<Rightarrow> bool" where
  "contains [] name = (name = [])"
| "contains (c # cs) name = (take (length name) (c # cs) = name \<or> contains cs name)"

definition convert :: "json \<Rightarrow> string option" where
  "convert v = (case v of JNull \<Rightarrow> None | _ \<Rightarrow> Some (str v))"

definition parse_argument :: "string \<Rightarrow> bool \<Rightarrow> request \<Rightarrow> exn + string option" where
  "parse_argument name required req =
     (let missing = (if required then Inl (Abort 400 name) else Inr None) in
      case get_json req of
        Inl e \<Rightarrow> Inl e
      | Inr source \<Rightarrow>
          (case source of
             JNull \<Rightarrow> missing
           | JDict kvs \<Rightarrow>
               (case map_of kvs name of None \<Rightarrow> missing | Some v \<Rightarrow> Inr (convert v))
           | JList xs \<Rightarrow> if JStr name \<in> set xs then Inl AttributeError else missing
           | JStr s \<Rightarrow> if contains s name then Inl AttributeError else missing
           | _ \<Rightarrow> Inl TypeError))"

definition format_arg :: "string option \<Rightarrow> string" where
  "format_arg a = (case a of None \<Rightarrow> ''None'' | Some s \<Rightarrow> s)"

text \<open>The body of \<^verbatim>\<open>Alert.post\<close>, under its decorator.\<close>

definition Alert_post_body :: "api_common \<Rightarrow> request \<Rightarrow> outcome" where
  "Alert_post_body api req =
     (case parse_argument ''to'' True req of
        Inl e \<Rightarrow> ([Get_json], Inl e)
      | Inr to \<Rightarrow>
          (case parse_argument ''subject'' True req of
             Inl e \<Rightarrow> ([Get_json], Inl e)
           | Inr subject \<Rightarrow>
               (case parse_argument ''message'' False req of
                  Inl e \<Rightarrow> ([Get_json], Inl e)
                | Inr message \<Rightarrow>
                    ([Get_json,
                      Log_info (''create alert: to:'' @ format_arg to
                        @ '' subject:'' @ format_arg subject),
                      Send_spark_alert_message to subject message],
                     Inr (send_spark_alert_message api to subject message)))))"

definition API_VERSION :: int where
  "API_VERSION = 1"

definition Ping_get_body :: "api_common \<Rightarrow> request \<Rightarrow> outcome" where
  "Ping_get_body api req =
     ([Log_info ''ping'', Ping API_VERSION], Inr (ping api API_VERSION))"

subsection \<open>The token guard\<close>

text \<open>
  Modelled from the spec: the decorator \<^verbatim>\<open>api_common.requires_api_token\<close> is not among
  the source files. Section 4.1 of the specification: the guard returns \<open>Authorized\<close> iff
  the authentication header is present and equals the configured token, and
  \<open>Denied\<close> with "missing token" or "invalid token" otherwise; a denied request is answered
  without running the handler. The name of the header and the response for a denial are
  configuration.
\<close>

datatype auth_result = Authorized | Denied string

record token_config =
  apiToken :: string
  token_header :: string
  denied_response :: "string \<Rightarrow> response"

definition TokenAuthGuard :: "string option \<Rightarrow> string \<Rightarrow> auth_result" where
  "TokenAuthGuard header token =
     (case header of
        None \<Rightarrow> Denied ''missing token''
      | Some t \<Rightarrow> if t = token then Authorized else Denied ''invalid token'')"

definition requires_api_token :: "token_config \<Rightarrow> (request \<Rightarrow> outcome) \<Rightarrow> request \<Rightarrow> outcome" where
  "requires_api_token tc handler req =
     (case TokenAuthGuard (headers req (token_header tc)) (apiToken tc) of
        Authorized \<Rightarrow> handler req
      | Denied reason \<Rightarrow> ([], Inr (denied_response tc reason)))"

definition Alert_post :: "token_config \<Rightarrow> api_common \<Rightarrow> request \<Rightarrow> outcome" where
  "Alert_post tc api = requires_api_token tc (Alert_post_body api)"

definition Ping_get :: "token_config \<Rightarrow> api_common \<Rightarrow> request \<Rightarrow> outcome" where
  "Ping_get tc api = requires_api_token tc (Ping_get_body api)"

section \<open>Sample collaborators, configurations and requests\<close>

text \<open>
  Concrete values on which the handlers are run below. The collaborators echo what they are
  given, so that a result shows which collaborator produced it and from which arguments.
\<close>

definition sample_api :: api_common where
  "sample_api =
     \<lparr>send_spark_alert_message =
        (\<lambda>to subject message.
           (JList [JStr (format_arg to), JStr (format_arg subject), JStr (format_arg message)],
            200)),
      handle_spark_webhook = (\<lambda>payload. (payload, 200)),
      ping = (\<lambda>version. (JDict [(''apiversion'', JInt version)], 200))\<rparr>"

definition secret_config :: config where
  "secret_config = \<lparr>MAX_CONTENT_LENGTH = 10, SPARK_WEBHOOK_SECRET = Some ''s3cret''\<rparr>"

definition open_config :: config where
  "open_config = \<lparr>MAX_CONTENT_LENGTH = 10, SPARK_WEBHOOK_SECRET = None\<rparr>"

text \<open>
  A webhook request with the given \<^verbatim>\<open>Content-Length\<close> and \<^verbatim>\<open>X-Spark-Signature\<close>
  headers, raw body and decoding of the body.
\<close>

definition webhook_request ::
  "string option \<Rightarrow> string option \<Rightarrow> byte list \<Rightarrow> exn + json \<Rightarrow> request"
where
  "webhook_request content_length signature body decoded =
     \<lparr>headers =
        (\<lambda>name. if name = ''Content-Length'' then content_length
                 else if name = ''X-Spark-Signature'' then signature
                 else None),
      get_data = body,
      get_json = decoded\<rparr>"

text \<open>A token configuration, and a request to a token-guarded endpoint.\<close>

definition sample_tokens :: token_config where
  "sample_tokens =
     \<lparr>apiToken = ''t0ken'', token_header = ''Token'',
      denied_response = (\<lambda>reason. (JDict [(''error'', JStr reason)], 401))\<rparr>"

definition token_request :: "string option \<Rightarrow> exn + json \<Rightarrow> request" where
  "token_request token decoded =
     \<lparr>headers = (\<lambda>name. if name = ''Token'' then token else None),
      get_data = [],
      get_json = decoded\<rparr>"

section \<open>Facts about the library functions\<close>

lemma length_sha1: "length (sha1 m) = 20"
  by (simp add: sha1_def be_bytes_def split: prod.splits)

lemma length_hexdigest: "length (hexdigest bs) = 2 * length bs"
  by (induction bs) (simp_all add: hexdigest_def)

lemma length_hmac_hexdigest: "length (hexdigest (hmac_sha1 k m)) = 40"
  by (simp add: length_hexdigest hmac_sha1_def Let_def length_sha1)

lemma hex_digit_ascii: "n < 16 \<Longrightarrow> (of_char (hex_digit n) :: nat) < 128"
proof -
  assume "n < 16"
  then have "hex_digit n \<in> set ''0123456789abcdef''"
    unfolding hex_digit_def by (intro nth_mem) simp
  then show ?thesis by auto
qed

lemma is_ascii_hexdigest: "is_ascii (hexdigest bs)"
proof -
  have "unat b div 16 < 16" for b :: byte
    using unsigned_less [of b, where 'a = nat] by simp
  then show ?thesis
    by (induction bs) (simp_all add: is_ascii_def hexdigest_def hex_digit_ascii)
qed

lemma compare_digest_hexdigest:
  "compare_digest (hexdigest bs) s =
     (if is_ascii s then Inr (hexdigest bs = s) else Inl TypeError)"
  by (simp add: compare_digest_def is_ascii_hexdigest)

lemma dict_get_JDict:
  "dict_get (JDict kvs) key d = Inr (case map_of kvs key of None \<Rightarrow> d | Some x \<Rightarrow> x)"
  by (simp add: dict_get_def)

lemma dict_get_not_dict:
  "\<forall>kvs. v \<noteq> JDict kvs \<Longrightarrow> dict_get v key d = Inl AttributeError"
  by (cases v) (simp_all add: dict_get_def)

lemmas int_of_str_defs =
  int_of_str_def strip_def is_space_def int_literal_def is_digit_def digit_val_def

lemma int_of_str_50: "int_of_str ''50'' = Some 50"
  by (simp add: int_of_str_defs)

lemmas webhook_request_simps = webhook_request_def secret_config_def open_config_def

lemma not_digest: "length s \<noteq> 40 \<Longrightarrow> s \<noteq> hexdigest (hmac_sha1 k m)"
  using length_hmac_hexdigest by blast

lemma int_of_str_2: "int_of_str ''2'' = Some 2"
  by (simp add: int_of_str_defs)

text \<open>
  A request that passes the size check and whose body decodes to a JSON object reaches the
  signature check; what happens next is decided there.
\<close>

lemma Webhook_post_reaches_signature:
  assumes "py_int (headers req ''Content-Length'') = Inr cl"
    and "cl \<le> int (MAX_CONTENT_LENGTH cfg)"
    and "get_json req = Inr (JDict kvs)"
    and "whid = (case map_of kvs ''id'' of None \<Rightarrow> JStr ''<Unknown>'' | Some x \<Rightarrow> x)"
    and "whname = (case map_of kvs ''name'' of None \<Rightarrow> JStr ''<Unknown>'' | Some x \<Rightarrow> x)"
  shows "Webhook_post cfg api req =
     (case Webhook_post_signature cfg req (headers req ''X-Spark-Signature'') whid whname of
        (evs, Some early) \<Rightarrow> (Get_json # evs, early)
      | (evs, None) \<Rightarrow>
          (Get_json # evs
             @ [Log_info (''webhook callback received:'' @ id_name whid whname),
                Handle_spark_webhook (JDict kvs)],
           Inr (handle_spark_webhook api (JDict kvs))))"
  unfolding assms(4,5) using assms(1-3)
  by (simp add: Webhook_post_def dict_get_JDict split: prod.splits option.splits)

lemma int_of_str_4: "int_of_str ''4'' = Some 4"
  by (simp add: int_of_str_defs)

lemma Webhook_post_dispatch_only_authorized:
  assumes "Handle_spark_webhook j \<in> set (fst (Webhook_post cfg api req))"
  shows "(\<exists>cl. py_int (headers req ''Content-Length'') = Inr cl
            \<and> cl \<le> int (MAX_CONTENT_LENGTH cfg))
       \<and> (SPARK_WEBHOOK_SECRET cfg = None
          \<or> (\<exists>k. SPARK_WEBHOOK_SECRET cfg = Some k
                \<and> headers req ''X-Spark-Signature''
                    = Some (hexdigest (hmac_sha1 (utf8 k) (get_data req)))))"
  using assms
  by (auto simp: Webhook_post_def Webhook_post_signature_def compare_digest_hexdigest Let_def
      split: sum.splits if_splits option.splits)


lemma requires_api_token_cases:
  "requires_api_token tc h req =
     (if TokenAuthGuard (headers req (token_header tc)) (apiToken tc) = Authorized then h req
      else ([], Inr (denied_response tc
             (case headers req (token_header tc) of
                None \<Rightarrow> ''missing token''
              | Some t \<Rightarrow> ''invalid token''))))"
  by (simp add: requires_api_token_def TokenAuthGuard_def split: option.splits)

lemma convert_JStr: "convert (JStr s) = Some s"
  by (simp add: convert_def str_def)

lemma parse_argument_JDict:
  "get_json req = Inr (JDict kvs) \<Longrightarrow>
   parse_argument name required req =
     (case map_of kvs name of
        None \<Rightarrow> if required then Inl (Abort 400 name) else Inr None
      | Some v \<Rightarrow> Inr (convert v))"
  by (simp add: parse_argument_def)

text \<open>The handlers on the sample requests.\<close>

lemma webhook_open_dispatch:
  "Webhook_post open_config sample_api
     (webhook_request (Some ''2'') None (utf8 ''{}'') (Inr (JDict [])))
   = ([Get_json,
       Log_info (''webhook callback received: id:<Unknown> name:'' @ [CHR 0x22]
         @ ''<Unknown>'' @ [CHR 0x22]),
       Handle_spark_webhook (JDict [])],
      Inr (JDict [], 200))"
  by (simp add: Webhook_post_def webhook_request_simps py_int_def int_of_str_2 dict_get_JDict
        Webhook_post_signature_def sample_api_def id_name_def str_def)

lemma alert_fire:
  "Alert_post sample_tokens sample_api
     (token_request (Some ''t0ken'')
        (Inr (JDict [(''to'', JStr ''room1''), (''subject'', JStr ''fire'')])))
   = ([Get_json, Log_info ''create alert: to:room1 subject:fire'',
       Send_spark_alert_message (Some ''room1'') (Some ''fire'') None],
      Inr (JList [JStr ''room1'', JStr ''fire'', JStr ''None''], 200))"
  by (simp add: Alert_post_def requires_api_token_def TokenAuthGuard_def sample_tokens_def
      token_request_def Alert_post_body_def parse_argument_def convert_def str_def
      sample_api_def format_arg_def)

lemma ping_ok:
  "Ping_get sample_tokens sample_api (token_request (Some ''t0ken'') (Inr JNull))
   = ([Log_info ''ping'', Ping 1], Inr (JDict [(''apiversion'', JInt 1)], 200))"
  by (simp add: Ping_get_def requires_api_token_def TokenAuthGuard_def sample_tokens_def
      token_request_def Ping_get_body_def API_VERSION_def sample_api_def)

section \<open>The size check of the webhook\<close>

text \<open>
  Claim C8. A webhook request whose declared content length parses to an integer above
  \<open>MAX_CONTENT_LENGTH\<close> is answered with status 413 and \<^verbatim>\<open>{"error": "Too big"}\<close>, and the
  handler has done nothing else by then: the list of events is empty, so the body was not
  read (neither \<open>Get_json\<close> nor \<open>Get_data\<close>) and no HMAC was computed.
\<close>

theorem webhook_too_big:
  assumes "py_int (headers req ''Content-Length'') = Inr cl"
    and "cl > int (MAX_CONTENT_LENGTH cfg)"
  shows "Webhook_post cfg api req = ([], Inr (JDict [(''error'', JStr ''Too big'')], 413))"
proof -
  from assms(2) have "cl \<noteq> 0" by simp
  with assms show ?thesis by (simp add: Webhook_post_def too_big_def)
qed

theorem webhook_too_big_witness:
  "Webhook_post secret_config sample_api
     (webhook_request (Some ''50'') None (utf8 ''{}'') (Inr (JDict [])))
   = ([], Inr (JDict [(''error'', JStr ''Too big'')], 413))"
  using webhook_too_big [of "webhook_request (Some ''50'') None (utf8 ''{}'') (Inr (JDict []))"
      50 secret_config sample_api]
  by (simp add: webhook_request_simps py_int_def int_of_str_50)

text \<open>
  Claim C7, as the code has it. A \<^verbatim>\<open>Content-Length\<close> value that is present and on which
  \<^verbatim>\<open>int\<close> raises \<^verbatim>\<open>ValueError\<close> is answered with status 400 and
  \<^verbatim>\<open>{"error": "Bad request"}\<close>; the list of events is empty, so the body was not read and
  nothing was dispatched.
\<close>

theorem webhook_malformed_length:
  assumes "headers req ''Content-Length'' = Some s"
    and "int_of_str s = None"
  shows "Webhook_post cfg api req = ([], Inr (JDict [(''error'', JStr ''Bad request'')], 400))"
  using assms by (simp add: Webhook_post_def py_int_def bad_request_def)

theorem webhook_malformed_length_witness:
  "int_of_str ''abc'' = None
   \<and> Webhook_post secret_config sample_api
        (webhook_request (Some ''abc'') None (utf8 ''{}'') (Inr (JDict [])))
      = ([], Inr (JDict [(''error'', JStr ''Bad request'')], 400))"
proof -
  have n: "int_of_str ''abc'' = None"
    by (simp add: int_of_str_defs)
  with webhook_malformed_length [of
      "webhook_request (Some ''abc'') None (utf8 ''{}'') (Inr (JDict []))" "''abc''"
      secret_config sample_api]
  show ?thesis by (simp add: webhook_request_simps)
qed

text \<open>
  Claim C7 as stated fails on a negative value: \<^verbatim>\<open>int('-5')\<close> is the integer -5, nothing in
  the handler tests the sign, and -5 is not above the maximum. The request passes the size
  check and, with no secret configured, is dispatched.
\<close>

theorem webhook_negative_length_passes:
  "int_of_str ''-5'' = Some (- 5)
   \<and> snd (Webhook_post open_config sample_api
        (webhook_request (Some ''-5'') None (utf8 ''{}'') (Inr (JDict []))))
      = Inr (JDict [], 200)"
proof -
  have n: "int_of_str ''-5'' = Some (- 5)"
    by (simp add: int_of_str_defs)
  then show ?thesis
    by (simp add: Webhook_post_def webhook_request_simps py_int_def dict_get_JDict
        Webhook_post_signature_def sample_api_def)
qed

text \<open>
  Claim C5 says that a request without a \<^verbatim>\<open>Content-Length\<close> header is answered with
  status 400. The code does not do that: \<^verbatim>\<open>int(None)\<close> raises \<^verbatim>\<open>TypeError\<close>, the
  handler catches \<^verbatim>\<open>ValueError\<close> only, and the exception leaves the handler.
\<close>

theorem webhook_missing_content_length:
  "Webhook_post secret_config sample_api
     (webhook_request None (Some ''00'') (utf8 ''{}'') (Inr (JDict [])))
   = ([], Inl TypeError)"
  by (simp add: Webhook_post_def webhook_request_simps py_int_def)

text \<open>
  Claim C6 says that a request without a \<^verbatim>\<open>Content-Length\<close> header passes the size check
  and goes on to the signature check, whatever the maximum. The code does not do that
  either: for every configuration the handler raises \<^verbatim>\<open>TypeError\<close> at \<^verbatim>\<open>int(cl)\<close>,
  before the size test, and nothing else happens.
\<close>

theorem webhook_absent_length_raises:
  assumes "headers req ''Content-Length'' = None"
  shows "Webhook_post cfg api req = ([], Inl TypeError)"
  using assms by (simp add: Webhook_post_def py_int_def)

theorem webhook_absent_length_raises_witness:
  "Webhook_post open_config sample_api
     (webhook_request None None (utf8 ''{}'') (Inr (JDict [])))
   = ([], Inl TypeError)"
  using webhook_absent_length_raises [of
      "webhook_request None None (utf8 ''{}'') (Inr (JDict []))" open_config sample_api]
  by (simp add: webhook_request_simps)

section \<open>The signature check of the webhook\<close>

text \<open>
  The round trip, on the requests that reach the comparison. Take a request that passes the
  size check and whose body decodes to a JSON object, a configured secret \<open>k\<close>, and an
  ASCII value \<open>s\<close> of the \<^verbatim>\<open>X-Spark-Signature\<close> header. If \<open>s\<close> is the lowercase
  hexadecimal HMAC-SHA1 of the raw body under the UTF-8 bytes of \<open>k\<close>, the handler returns
  what \<open>handle_spark_webhook\<close> returns for the decoded body; if \<open>s\<close> is anything else, it
  returns status 403 with \<^verbatim>\<open>{"error": "Unauthorized"}\<close>. The collaborator is called
  exactly when the signature matches.
\<close>

theorem webhook_signature_roundtrip:
  assumes "py_int (headers req ''Content-Length'') = Inr cl"
    and "cl \<le> int (MAX_CONTENT_LENGTH cfg)"
    and "get_json req = Inr (JDict kvs)"
    and "SPARK_WEBHOOK_SECRET cfg = Some k"
    and "headers req ''X-Spark-Signature'' = Some s"
    and "is_ascii s"
  shows "snd (Webhook_post cfg api req) =
           (if s = hexdigest (hmac_sha1 (utf8 k) (get_data req))
            then Inr (handle_spark_webhook api (JDict kvs))
            else Inr (JDict [(''error'', JStr ''Unauthorized'')], 403))
         \<and> (Handle_spark_webhook (JDict kvs) \<in> set (fst (Webhook_post cfg api req))
              \<longleftrightarrow> s = hexdigest (hmac_sha1 (utf8 k) (get_data req)))"
proof -
  note Webhook_post_reaches_signature [OF assms(1-3) refl refl, of api]
  with assms(4-6) show ?thesis
    by (auto simp: Webhook_post_signature_def compare_digest_hexdigest unauthorized_def Let_def)
qed

theorem webhook_signature_roundtrip_witness:
  "snd (Webhook_post secret_config sample_api
          (webhook_request (Some ''2'')
             (Some (hexdigest (hmac_sha1 (utf8 ''s3cret'') (utf8 ''{}''))))
             (utf8 ''{}'') (Inr (JDict []))))
     = Inr (JDict [], 200)
   \<and> snd (Webhook_post secret_config sample_api
          (webhook_request (Some ''2'') (Some ''00'') (utf8 ''{}'') (Inr (JDict []))))
     = Inr (JDict [(''error'', JStr ''Unauthorized'')], 403)"
proof -
  have a: "is_ascii ''00''"
    by (simp add: is_ascii_def)
  have d: "''00'' \<noteq> hexdigest (hmac_sha1 (utf8 ''s3cret'') (utf8 ''{}''))"
    by (rule not_digest) simp
  show ?thesis
    using webhook_signature_roundtrip [of
        "webhook_request (Some ''2'') (Some (hexdigest (hmac_sha1 (utf8 ''s3cret'') (utf8 ''{}''))))
           (utf8 ''{}'') (Inr (JDict []))"
        2 secret_config "[]" "''s3cret''"
        "hexdigest (hmac_sha1 (utf8 ''s3cret'') (utf8 ''{}''))" sample_api]
      webhook_signature_roundtrip [of
        "webhook_request (Some ''2'') (Some ''00'') (utf8 ''{}'') (Inr (JDict []))"
        2 secret_config "[]" "''s3cret''" "''00''" sample_api]
      a d
    by (simp add: webhook_request_simps py_int_def int_of_str_2 is_ascii_hexdigest sample_api_def)
qed

text \<open>
  Claim C1 says that a request whose signature differs from the digest, for instance by one
  flipped bit, is denied with status 403 and \<^verbatim>\<open>{"error": "Unauthorized"}\<close>. The code does
  that when the header is missing and when an ASCII value differs, but not on a value with
  a non-ASCII character, which is what flipping the top bit of a character of the digest
  gives. Here the header is the one character U+00E9: it is not the digest (that has 40
  characters), \<open>compare_digest\<close> raises \<open>TypeError\<close> on it, nothing catches the
  exception, and no 403 response is built.
\<close>

theorem webhook_signature_non_ascii:
  "[CHR 0xE9] \<noteq> hexdigest (hmac_sha1 (utf8 ''s3cret'') (utf8 ''{}''))
   \<and> Webhook_post secret_config sample_api
        (webhook_request (Some ''2'') (Some [CHR 0xE9]) (utf8 ''{}'') (Inr (JDict [])))
      = ([Get_json, Get_data, Hmac_new], Inl TypeError)"
proof -
  have d: "[CHR 0xE9] \<noteq> hexdigest (hmac_sha1 (utf8 ''s3cret'') (utf8 ''{}''))"
    by (rule not_digest) simp
  have a: "\<not> is_ascii [CHR 0xE9]"
    by (simp add: is_ascii_def)
  show ?thesis
    using d a
    by (simp add: Webhook_post_def webhook_request_simps py_int_def int_of_str_2 dict_get_JDict
        Webhook_post_signature_def compare_digest_hexdigest)
qed

text \<open>
  Claim C2, as the code has it. With no secret configured, a request that passes the size
  check and whose body decodes to a JSON object is dispatched, whatever the raw body and
  whatever the \<^verbatim>\<open>X-Spark-Signature\<close> header (present or not): the handler reads the JSON,
  writes one log line, calls \<open>handle_spark_webhook\<close> on the decoded body and returns its
  result. The raw body is not read and no HMAC is computed.
\<close>

theorem webhook_no_secret_dispatches:
  assumes "SPARK_WEBHOOK_SECRET cfg = None"
    and "py_int (headers req ''Content-Length'') = Inr cl"
    and "cl \<le> int (MAX_CONTENT_LENGTH cfg)"
    and "get_json req = Inr (JDict kvs)"
  shows "\<exists>msg. Webhook_post cfg api req =
           ([Get_json, Log_info msg, Handle_spark_webhook (JDict kvs)],
            Inr (handle_spark_webhook api (JDict kvs)))"
  using Webhook_post_reaches_signature [OF assms(2-4) refl refl, of api] assms(1)
  by (simp add: Webhook_post_signature_def)

theorem webhook_no_secret_dispatches_witness:
  "\<exists>msg. Webhook_post open_config sample_api
           (webhook_request (Some ''2'') (Some ''bogus'') (utf8 ''{}'') (Inr (JDict [])))
         = ([Get_json, Log_info msg, Handle_spark_webhook (JDict [])], Inr (JDict [], 200))"
  using webhook_no_secret_dispatches [of open_config
      "webhook_request (Some ''2'') (Some ''bogus'') (utf8 ''{}'') (Inr (JDict []))"
      2 "[]" sample_api]
  by (simp add: webhook_request_simps py_int_def int_of_str_2 sample_api_def)

text \<open>
  Claim C2 as stated fails: not every body is dispatched. The body \<^verbatim>\<open>null\<close> decodes to
  \<^verbatim>\<open>None\<close>, \<^verbatim>\<open>reqjson.get\<close> raises \<^verbatim>\<open>AttributeError\<close>, and the collaborator is not
  called although the request passed the size check and no secret is configured.
\<close>

theorem webhook_no_secret_null_body:
  "Webhook_post open_config sample_api
     (webhook_request (Some ''4'') None (utf8 ''null'') (Inr JNull))
   = ([Get_json], Inl AttributeError)"
  by (simp add: Webhook_post_def webhook_request_simps py_int_def int_of_str_4 dict_get_def)

section \<open>The body of the webhook\<close>

text \<open>
  Claim C10. The handler decodes the body and reads \<^verbatim>\<open>id\<close> and \<^verbatim>\<open>name\<close> before it
  looks at the secret. So a request that passes the size check and whose body does not
  decode to a JSON object (\<open>get_json\<close> raises, or returns a value that is not a
  dictionary) ends in an exception right after the JSON was read: no HMAC is computed and
  the answer is never 403 Unauthorized, whatever the secret and the signature header.
\<close>

theorem webhook_not_an_object_fails:
  assumes "py_int (headers req ''Content-Length'') = Inr cl"
    and "cl \<le> int (MAX_CONTENT_LENGTH cfg)"
    and "\<forall>kvs. get_json req \<noteq> Inr (JDict kvs)"
  shows "(\<exists>e. Webhook_post cfg api req = ([Get_json], Inl e))
         \<and> snd (Webhook_post cfg api req)
             \<noteq> Inr (JDict [(''error'', JStr ''Unauthorized'')], 403)"
proof (cases "get_json req")
  case (Inl e)
  with assms(1,2) show ?thesis by (simp add: Webhook_post_def)
next
  case (Inr v)
  with assms(3) have "\<forall>kvs. v \<noteq> JDict kvs" by simp
  then have "dict_get v ''id'' (JStr ''<Unknown>'') = Inl AttributeError"
    by (rule dict_get_not_dict)
  with Inr assms(1,2) show ?thesis by (simp add: Webhook_post_def)
qed

theorem webhook_not_an_object_fails_witness:
  "Webhook_post secret_config sample_api
     (webhook_request (Some ''4'') None (utf8 ''null'') (Inr JNull))
   = ([Get_json], Inl AttributeError)
   \<and> Webhook_post secret_config sample_api
     (webhook_request (Some ''2'') (Some ''00'') (utf8 ''{['') (Inl BadRequest))
   = ([Get_json], Inl BadRequest)"
  using webhook_not_an_object_fails [of
      "webhook_request (Some ''4'') None (utf8 ''null'') (Inr JNull)" 4 secret_config sample_api]
    webhook_not_an_object_fails [of
      "webhook_request (Some ''2'') (Some ''00'') (utf8 ''{['') (Inl BadRequest)"
      2 secret_config sample_api]
  by (simp add: webhook_request_simps py_int_def int_of_str_4 int_of_str_2 Webhook_post_def
      dict_get_def)

section \<open>Failures that the handlers detect\<close>








section \<open>The guard chain\<close>

text \<open>
  Claim C3. A collaborator is called only on an authorized request. If
  \<open>handle_spark_webhook\<close> is called, the declared content length parsed to an integer not
  above the maximum, and either no secret is configured or the signature header is the
  hexadecimal HMAC-SHA1 of the raw body under the secret. If \<open>send_spark_alert_message\<close>
  or \<open>ping\<close> is called, the token guard returned \<open>Authorized\<close>: both calls are made
  only by handlers that the guard wraps.
\<close>

theorem guard_chain_invariant:
  "(Handle_spark_webhook j \<in> set (fst (Webhook_post cfg api req)) \<longrightarrow>
      (\<exists>cl. py_int (headers req ''Content-Length'') = Inr cl
          \<and> cl \<le> int (MAX_CONTENT_LENGTH cfg))
      \<and> (SPARK_WEBHOOK_SECRET cfg = None
          \<or> (\<exists>k. SPARK_WEBHOOK_SECRET cfg = Some k
                \<and> headers req ''X-Spark-Signature''
                    = Some (hexdigest (hmac_sha1 (utf8 k) (get_data req))))))
   \<and> (Send_spark_alert_message to subject message \<in> set (fst (Alert_post tc api req)) \<longrightarrow>
        TokenAuthGuard (headers req (token_header tc)) (apiToken tc) = Authorized)
   \<and> (Ping version \<in> set (fst (Ping_get tc api req)) \<longrightarrow>
        TokenAuthGuard (headers req (token_header tc)) (apiToken tc) = Authorized)"
proof (intro conjI impI)
  assume "Handle_spark_webhook j \<in> set (fst (Webhook_post cfg api req))"
  from Webhook_post_dispatch_only_authorized [OF this]
  show "\<exists>cl. py_int (headers req ''Content-Length'') = Inr cl
          \<and> cl \<le> int (MAX_CONTENT_LENGTH cfg)"
    and "SPARK_WEBHOOK_SECRET cfg = None
          \<or> (\<exists>k. SPARK_WEBHOOK_SECRET cfg = Some k
                \<and> headers req ''X-Spark-Signature''
                    = Some (hexdigest (hmac_sha1 (utf8 k) (get_data req))))"
    by blast+
next
  assume "Send_spark_alert_message to subject message \<in> set (fst (Alert_post tc api req))"
  then show "TokenAuthGuard (headers req (token_header tc)) (apiToken tc) = Authorized"
    by (simp add: Alert_post_def requires_api_token_cases split: if_splits)
next
  assume "Ping version \<in> set (fst (Ping_get tc api req))"
  then show "TokenAuthGuard (headers req (token_header tc)) (apiToken tc) = Authorized"
    by (simp add: Ping_get_def requires_api_token_cases split: if_splits)
qed

theorem guard_chain_invariant_witness:
  "Handle_spark_webhook (JDict []) \<in> set (fst (Webhook_post open_config sample_api
        (webhook_request (Some ''2'') None (utf8 ''{}'') (Inr (JDict [])))))
   \<and> (\<exists>cl. py_int (headers (webhook_request (Some ''2'') None (utf8 ''{}'') (Inr (JDict [])))
                ''Content-Length'') = Inr cl
          \<and> cl \<le> int (MAX_CONTENT_LENGTH open_config))
   \<and> Send_spark_alert_message (Some ''room1'') (Some ''fire'') None
       \<in> set (fst (Alert_post sample_tokens sample_api
            (token_request (Some ''t0ken'')
               (Inr (JDict [(''to'', JStr ''room1''), (''subject'', JStr ''fire'')])))))
   \<and> TokenAuthGuard
        (headers (token_request (Some ''t0ken'')
                    (Inr (JDict [(''to'', JStr ''room1''), (''subject'', JStr ''fire'')])))
           (token_header sample_tokens))
        (apiToken sample_tokens) = Authorized
   \<and> Ping 1 \<in> set (fst (Ping_get sample_tokens sample_api
        (token_request (Some ''t0ken'') (Inr JNull))))
   \<and> TokenAuthGuard
        (headers (token_request (Some ''t0ken'') (Inr JNull)) (token_header sample_tokens))
        (apiToken sample_tokens) = Authorized"
proof -
  have w: "Handle_spark_webhook (JDict []) \<in> set (fst (Webhook_post open_config sample_api
        (webhook_request (Some ''2'') None (utf8 ''{}'') (Inr (JDict [])))))"
    by (simp add: webhook_open_dispatch)
  have a: "Send_spark_alert_message (Some ''room1'') (Some ''fire'') None
       \<in> set (fst (Alert_post sample_tokens sample_api
            (token_request (Some ''t0ken'')
               (Inr (JDict [(''to'', JStr ''room1''), (''subject'', JStr ''fire'')])))))"
    by (simp add: alert_fire)
  have p: "Ping 1 \<in> set (fst (Ping_get sample_tokens sample_api
        (token_request (Some ''t0ken'') (Inr JNull))))"
    by (simp add: ping_ok)
  from w a p show ?thesis
    using guard_chain_invariant [where j = "JDict []" and cfg = open_config and api = sample_api
        and req = "webhook_request (Some ''2'') None (utf8 ''{}'') (Inr (JDict []))"
        and tc = sample_tokens and version = 1 and to = None and subject = None
        and message = None]
      guard_chain_invariant [where j = JNull and cfg = open_config and api = sample_api
        and req = "token_request (Some ''t0ken'')
                     (Inr (JDict [(''to'', JStr ''room1''), (''subject'', JStr ''fire'')]))"
        and tc = sample_tokens and version = 1 and to = "Some ''room1''"
        and subject = "Some ''fire''" and message = None]
      guard_chain_invariant [where j = JNull and cfg = open_config and api = sample_api
        and req = "token_request (Some ''t0ken'') (Inr JNull)"
        and tc = sample_tokens and version = 1 and to = None and subject = None
        and message = None]
    by blast
qed

section \<open>The arguments of an alert\<close>

text \<open>
  Claim C9, as the code has it, for the method under its decorator (the method runs on the
  requests the token guard has let through). Let the JSON body be an object. If \<^verbatim>\<open>to\<close> is
  missing, or \<^verbatim>\<open>to\<close> is there and \<^verbatim>\<open>subject\<close> is missing, the parser aborts with status
  400 for that argument and no collaborator is called. If both are there, the handler calls
  \<open>send_spark_alert_message\<close> once and returns its result unchanged; each argument is the
  converted value (\<open>convert\<close>: a string as it is, \<^verbatim>\<open>null\<close> as \<^verbatim>\<open>None\<close>, any other
  value \<open>v\<close> as \<^verbatim>\<open>str(v)\<close>), and \<^verbatim>\<open>message\<close> is \<^verbatim>\<open>None\<close> when it is absent.
\<close>

theorem alert_post_on_object:
  assumes "get_json req = Inr (JDict kvs)"
  shows "(map_of kvs ''to'' = None \<longrightarrow>
            Alert_post_body api req = ([Get_json], Inl (Abort 400 ''to'')))
       \<and> (map_of kvs ''to'' \<noteq> None \<and> map_of kvs ''subject'' = None \<longrightarrow>
            Alert_post_body api req = ([Get_json], Inl (Abort 400 ''subject'')))
       \<and> (\<forall>to subject. map_of kvs ''to'' = Some to \<and> map_of kvs ''subject'' = Some subject \<longrightarrow>
            (\<exists>logged. Alert_post_body api req =
               ([Get_json, Log_info logged,
                 Send_spark_alert_message (convert to) (convert subject)
                   (case map_of kvs ''message'' of None \<Rightarrow> None | Some m \<Rightarrow> convert m)],
                Inr (send_spark_alert_message api (convert to) (convert subject)
                   (case map_of kvs ''message'' of None \<Rightarrow> None | Some m \<Rightarrow> convert m)))))
       \<and> (\<forall>s. convert (JStr s) = Some s)"
  using assms
  by (auto simp: Alert_post_body_def parse_argument_JDict convert_JStr split: option.splits)

theorem alert_post_on_object_witness:
  "Alert_post_body sample_api (token_request (Some ''t0ken'') (Inr (JDict [(''subject'', JStr ''fire'')])))
     = ([Get_json], Inl (Abort 400 ''to''))
   \<and> Alert_post_body sample_api (token_request (Some ''t0ken'') (Inr (JDict [(''to'', JStr ''room1'')])))
     = ([Get_json], Inl (Abort 400 ''subject''))
   \<and> (\<exists>logged. Alert_post_body sample_api
        (token_request (Some ''t0ken'')
           (Inr (JDict [(''to'', JStr ''room1''), (''subject'', JStr ''fire'')])))
     = ([Get_json, Log_info logged, Send_spark_alert_message (Some ''room1'') (Some ''fire'') None],
        Inr (JList [JStr ''room1'', JStr ''fire'', JStr ''None''], 200)))"
proof -
  have 1: "Alert_post_body sample_api
      (token_request (Some ''t0ken'') (Inr (JDict [(''subject'', JStr ''fire'')])))
     = ([Get_json], Inl (Abort 400 ''to''))"
    using alert_post_on_object [of
      "token_request (Some ''t0ken'') (Inr (JDict [(''subject'', JStr ''fire'')]))"
      "[(''subject'', JStr ''fire'')]" sample_api]
    by (simp add: token_request_def)
  have 2: "Alert_post_body sample_api
      (token_request (Some ''t0ken'') (Inr (JDict [(''to'', JStr ''room1'')])))
     = ([Get_json], Inl (Abort 400 ''subject''))"
    using alert_post_on_object [of
      "token_request (Some ''t0ken'') (Inr (JDict [(''to'', JStr ''room1'')]))"
      "[(''to'', JStr ''room1'')]" sample_api]
    by (simp add: token_request_def)
  have 3: "\<exists>logged. Alert_post_body sample_api
        (token_request (Some ''t0ken'')
           (Inr (JDict [(''to'', JStr ''room1''), (''subject'', JStr ''fire'')])))
     = ([Get_json, Log_info logged, Send_spark_alert_message (Some ''room1'') (Some ''fire'') None],
        Inr (JList [JStr ''room1'', JStr ''fire'', JStr ''None''], 200))"
    using alert_post_on_object [of
      "token_request (Some ''t0ken'')
         (Inr (JDict [(''to'', JStr ''room1''), (''subject'', JStr ''fire'')]))"
      "[(''to'', JStr ''room1''), (''subject'', JStr ''fire'')]" sample_api]
    by (simp add: token_request_def convert_JStr sample_api_def format_arg_def)
  from 1 2 3 show ?thesis by blast
qed

lemma str_5: "str (JInt 5) = ''5''"
  by (simp add: str_def str_int_def decimal.simps hex_digit_def)

text \<open>
  Claim C9 as stated fails where an argument is there but is not a string: it is converted,
  not refused. With \<^verbatim>\<open>{"to": 5, "subject": "fire"}\<close> the collaborator is called with
  \<^verbatim>\<open>'5'\<close>.
\<close>

theorem alert_post_number_is_sent:
  "Alert_post_body sample_api
     (token_request (Some ''t0ken'') (Inr (JDict [(''to'', JInt 5), (''subject'', JStr ''fire'')])))
   = ([Get_json, Log_info ''create alert: to:5 subject:fire'',
       Send_spark_alert_message (Some ''5'') (Some ''fire'') None],
      Inr (JList [JStr ''5'', JStr ''fire'', JStr ''None''], 200))"
  by (simp add: Alert_post_body_def parse_argument_def token_request_def convert_def str_5
      sample_api_def format_arg_def) (simp add: str_def)


end
